theory Spec2Isabelle
  imports Complex_Main
begin

section \<open>JavaScript values used by the demo\<close>

text \<open>
  Errors are values.  \<open>TypeError\<close> is what the runtime raises when a property is read
  from \<open>undefined\<close>; \<open>Error\<close> carries the message of an exception created with
  \<open>new Error(message)\<close>, by this repository or by an external library.
\<close>

datatype error = TypeError string | Error string

text \<open>
  Reading \<open>obj[key]\<close> on a plain object finds the object's own property first and then
  the properties every plain object inherits from \<open>Object.prototype\<close>; only when both
  are missing is the result \<open>undefined\<close>.
\<close>

definition Object_prototype_properties :: "string list" where
  "Object_prototype_properties =
     [''constructor'', ''__defineGetter__'', ''__defineSetter__'', ''hasOwnProperty'',
      ''__lookupGetter__'', ''__lookupSetter__'', ''isPrototypeOf'',
      ''propertyIsEnumerable'', ''toString'', ''valueOf'', ''__proto__'',
      ''toLocaleString'']"

datatype 'a property = Own 'a | Inherited | Undefined

definition get_property :: "(string \<rightharpoonup> 'a) \<Rightarrow> string \<Rightarrow> 'a property" where
  "get_property obj key =
     (case obj key of
        Some v \<Rightarrow> Own v
      | None \<Rightarrow> if key \<in> set Object_prototype_properties then Inherited else Undefined)"

section \<open>The scenario table\<close>

record scenario_info =
  name :: string
  agents_count :: nat
  description :: string

definition SCENARIOS :: "string \<rightharpoonup> scenario_info" where
  "SCENARIOS = map_of
     [(''basic'', \<lparr>name = ''Basic TODO API'', agents_count = 3,
                   description = ''REST API with tests''\<rparr>),
      (''fullstack'', \<lparr>name = ''Full Stack TODO App'', agents_count = 5,
                       description = ''API + Frontend + Quality validation''\<rparr>),
      (''enterprise'', \<lparr>name = ''Enterprise TODO App'', agents_count = 5,
                        description = ''Full app with auth, DB, and Docker''\<rparr>)]"

section \<open>Task specifications\<close>

text \<open>
  The keys of \<open>this.agents\<close>.  A task specification names its agent by the expression
  \<open>this.agents.<key>.id\<close>; the model keeps the key, and the identifier is read from the
  agent table when the task is submitted.
\<close>

datatype agent_key = analyst | developer | tester | reviewer | frontend

datatype task_type = comprehension | generation | validation

record task_spec =
  id' :: string
  type' :: task_type
  objective :: string
  task_description :: "string option"
  dependencies :: "string list option"
  context' :: "string list option"
  successCriteria :: "string list option"
  specificChecks :: "string list option"
  qualityGates :: "string list option"
  maxTokens :: nat
  agentId :: agent_key

definition requirements_base :: string where
  "requirements_base =
     ''Understand the requirements for a TODO API with the following features:'' @
     ''\<newline>            - CRUD operations (Create, Read, Update, Delete)'' @
     ''\<newline>            - Task model with: id, title, description, completed, createdAt, updatedAt'' @
     ''\<newline>            - RESTful endpoints following best practices'' @
     ''\<newline>            - Input validation'' @
     ''\<newline>            - Error handling'' @
     ''\<newline>            - JSON responses''"

definition requirements_enterprise :: string where
  "requirements_enterprise =
     ''\<newline>            - JWT authentication'' @
     ''\<newline>            - User association (tasks belong to users)'' @
     ''\<newline>            - PostgreSQL database integration'' @
     ''\<newline>            - Docker containerization'' @
     ''\<newline>            - Rate limiting and security headers''"

definition getRequirementsDescription :: "string \<Rightarrow> string" where
  "getRequirementsDescription scenario =
     (if scenario = ''enterprise'' then requirements_base @ requirements_enterprise
      else requirements_base)"

definition api_criteria_base :: "string list" where
  "api_criteria_base =
     [''Express.js REST API implementation'',
      ''All CRUD endpoints (GET, POST, PUT, DELETE)'',
      ''Proper error handling and validation'',
      ''Clean code structure with router separation'']"

definition getApiSuccessCriteria :: "string \<Rightarrow> string list" where
  "getApiSuccessCriteria scenario =
     (if scenario = ''basic'' then api_criteria_base @ [''In-memory storage for demo purposes'']
      else if scenario = ''enterprise'' then
        api_criteria_base @ [''PostgreSQL integration with migrations'',
                             ''JWT authentication middleware'',
                             ''User-scoped todo operations'']
      else api_criteria_base)"

definition comprehend_task :: "string \<Rightarrow> task_spec" where
  "comprehend_task scenario =
     \<lparr>id' = ''comprehend-todo-api'', type' = comprehension,
      objective = ''Analyze requirements for a RESTful TODO API'',
      task_description = Some (getRequirementsDescription scenario),
      dependencies = None, context' = None, successCriteria = None,
      specificChecks = None, qualityGates = None,
      maxTokens = 10000, agentId = analyst\<rparr>"

definition generate_task :: "string \<Rightarrow> task_spec" where
  "generate_task scenario =
     \<lparr>id' = ''generate-todo-api'', type' = generation,
      objective = ''Implement TODO API with Express.js'',
      task_description = None,
      dependencies = Some [''comprehend-todo-api''],
      context' = Some [''.repochief/artifacts/comprehend-todo-api/analysis.md''],
      successCriteria = Some (getApiSuccessCriteria scenario),
      specificChecks = None, qualityGates = None,
      maxTokens = 50000, agentId = developer\<rparr>"

definition test_task :: task_spec where
  "test_task =
     \<lparr>id' = ''test-todo-api'', type' = generation,
      objective = ''Write comprehensive tests for TODO API'',
      task_description = None,
      dependencies = Some [''generate-todo-api''],
      context' = Some [''.repochief/artifacts/generate-todo-api/code/''],
      successCriteria = Some [''Unit tests for all endpoints'',
                              ''Test coverage > 80%'',
                              ''Mock dependencies properly'',
                              ''Test error cases and edge cases'',
                              ''Use Mocha + Chai + Sinon''],
      specificChecks = None, qualityGates = None,
      maxTokens = 30000, agentId = tester\<rparr>"

definition validate_task :: task_spec where
  "validate_task =
     \<lparr>id' = ''validate-todo-api'', type' = validation,
      objective = ''Review code quality and security'',
      task_description = None,
      dependencies = Some [''generate-todo-api'', ''test-todo-api''],
      context' = Some [''.repochief/artifacts/generate-todo-api/code/'',
                       ''.repochief/artifacts/test-todo-api/code/''],
      successCriteria = None,
      specificChecks = Some [''Code follows best practices'',
                             ''No security vulnerabilities'',
                             ''Proper input validation'',
                             ''Good error handling'',
                             ''Clean code structure''],
      qualityGates = Some [''eslint'', ''test'', ''complexity''],
      maxTokens = 20000, agentId = reviewer\<rparr>"

definition frontend_task :: task_spec where
  "frontend_task =
     \<lparr>id' = ''generate-todo-frontend'', type' = generation,
      objective = ''Create React frontend for TODO app'',
      task_description = None,
      dependencies = Some [''generate-todo-api''],
      context' = Some [''.repochief/artifacts/generate-todo-api/api-spec.json''],
      successCriteria = Some [''React functional components with hooks'',
                              ''Responsive design with Tailwind CSS'',
                              ''API integration with fetch/axios'',
                              ''Error handling and loading states'',
                              ''Add, edit, delete, and complete todos''],
      specificChecks = None, qualityGates = None,
      maxTokens = 40000, agentId = frontend\<rparr>"

text \<open>
  The specifications \<open>queueTasks\<close> builds, in the order in which it submits them: three
  for every scenario, two more when the scenario is not \<open>basic\<close>.
\<close>

definition queueTasks_specs :: "string \<Rightarrow> task_spec list" where
  "queueTasks_specs scenario =
     [comprehend_task scenario, generate_task scenario, test_task] @
     (if scenario \<noteq> ''basic'' then [validate_task, frontend_task] else [])"

definition task_ids :: "task_spec list \<Rightarrow> string list" where
  "task_ids ts = map id' ts"

definition deps_of :: "task_spec \<Rightarrow> string list" where
  "deps_of t = (case dependencies t of None \<Rightarrow> [] | Some ds \<Rightarrow> ds)"

section \<open>The runner\<close>

text \<open>
  A JavaScript number: a finite value (every finite double is a rational), \<open>NaN\<close> or an
  infinity.  Zero and \<open>NaN\<close> are the falsy numbers.
\<close>

datatype js_number = NaN | Finite rat | PosInfinity | NegInfinity

fun truthy :: "js_number \<Rightarrow> bool" where
  "truthy NaN = False"
| "truthy (Finite q) = (q \<noteq> 0)"
| "truthy PosInfinity = True"
| "truthy NegInfinity = True"

text \<open>The \<open>options\<close> argument of the constructor; \<open>None\<close> is an omitted field.\<close>

record options =
  opt_scenario :: "string option"
  opt_mockMode :: "bool option"
  opt_budget :: "js_number option"
  opt_verbose :: "bool option"

record agent =
  agent_id :: string
  agent_name :: string
  agent_role :: string

text \<open>
  The fields of a \<open>TodoDemoRunner\<close>.  \<open>orchestrator\<close> and \<open>api\<close> record whether the
  field holds an object (\<open>True\<close>) or is still \<open>null\<close>.
\<close>

record runner =
  scenario :: string
  mockMode :: bool
  budget :: js_number
  verbose :: bool
  orchestrator :: bool
  api :: bool
  agents :: "agent_key \<rightharpoonup> agent"

text \<open>\<open>s || 'basic'\<close>: the empty string is falsy.\<close>

definition or_basic :: "string option \<Rightarrow> string" where
  "or_basic s = (case s of None \<Rightarrow> ''basic'' | Some x \<Rightarrow> if x = [] then ''basic'' else x)"

text \<open>\<open>n || 10\<close>.\<close>

definition or_ten :: "js_number option \<Rightarrow> js_number" where
  "or_ten n = (case n of None \<Rightarrow> Finite 10 | Some x \<Rightarrow> if truthy x then x else Finite 10)"

definition constructor :: "options \<Rightarrow> runner" where
  "constructor opts =
     \<lparr>scenario = or_basic (opt_scenario opts),
      mockMode = (case opt_mockMode opts of Some b \<Rightarrow> b | None \<Rightarrow> True),
      budget = or_ten (opt_budget opts),
      verbose = (case opt_verbose opts of Some b \<Rightarrow> b | None \<Rightarrow> False),
      orchestrator = False,
      api = False,
      agents = Map.empty\<rparr>"

text \<open>
  The options the script builds from the environment and the command line.  \<open>parseInt\<close>
  is the language's built-in, taken as a parameter.
\<close>

record process_env =
  DEMO_SCENARIO :: "string option"
  MOCK_MODE :: "string option"
  DEMO_BUDGET :: "string option"

definition cli_options ::
  "(string option \<Rightarrow> js_number) \<Rightarrow> process_env \<Rightarrow> string list \<Rightarrow> options" where
  "cli_options parseInt env argv =
     \<lparr>opt_scenario = Some (or_basic (DEMO_SCENARIO env)),
      opt_mockMode = Some (MOCK_MODE env = Some ''true''),
      opt_budget = Some (or_ten (Some (parseInt (DEMO_BUDGET env)))),
      opt_verbose = Some (''--verbose'' \<in> set argv)\<rparr>"

subsection \<open>The external collaborators\<close>

text \<open>
  The orchestrator, the cloud API and the prompt library are not part of the repository.
  A \<open>world\<close> fixes, for one run, what each call to them does: \<open>None\<close> (or \<open>Inr\<close>) when
  the call returns, \<open>Some e\<close> (or \<open>Inl e\<close>) when it raises or its promise rejects.
  Every call is taken to settle.  What the methods print is left out.
\<close>

datatype template =
  REQUIREMENTS_ANALYST | SENIOR_DEVELOPER | QA_ENGINEER | CODE_REVIEWER
  | frontend_developer

record agent_request =
  req_name :: string
  req_template :: template
  maxConcurrentTasks :: nat

record orchestrator_config =
  sessionName :: string
  totalBudget :: js_number
  cfg_mockMode :: bool

record answers =
  ans_scenario :: string
  ans_mockMode :: bool
  ans_budget :: "js_number option"

record report =
  tasksCompleted :: nat
  totalTasks :: nat
  tasksFailed :: nat
  totalCost :: "rat option"
  totalTokens :: "nat option"
  duration :: rat

record world =
  argv :: "string list"
  w_prompt :: "error + answers"
  w_createOrchestrator :: "orchestrator_config \<Rightarrow> error option"
  w_initialize :: "error option"
  w_createCloudAPI :: "error option"
  w_api_start :: "error option"
  w_createAgent :: "agent_request \<Rightarrow> error + agent"
  w_queueTask :: "task_spec \<Rightarrow> string \<Rightarrow> error option"
  w_on :: "string \<Rightarrow> error option"
  w_startExecution :: "error option"
  w_waitForCompletion :: "error option"
  w_getFinalReport :: "error + report"
  w_shutdown :: "error option"
  w_api_stop :: "error option"

definition bind :: "error + 'a \<Rightarrow> ('a \<Rightarrow> error + 'b) \<Rightarrow> error + 'b" where
  "bind m f = (case m of Inl e \<Rightarrow> Inl e | Inr x \<Rightarrow> f x)"

definition call :: "error option \<Rightarrow> error + unit" where
  "call r = (case r of Some e \<Rightarrow> Inl e | None \<Rightarrow> Inr ())"

fun call_all :: "error option list \<Rightarrow> error + unit" where
  "call_all [] = Inr ()"
| "call_all (c # cs) = bind (call c) (\<lambda>_. call_all cs)"

subsection \<open>The methods\<close>

definition interactive :: "string list \<Rightarrow> bool" where
  "interactive av \<longleftrightarrow> length av \<le> 2 \<and> ''--non-interactive'' \<notin> set av"

definition interactiveSetup :: "world \<Rightarrow> runner \<Rightarrow> error + runner" where
  "interactiveSetup w r =
     bind (w_prompt w) (\<lambda>a.
       Inr (r\<lparr>scenario := ans_scenario a,
               mockMode := ans_mockMode a,
               budget := or_ten (ans_budget a)\<rparr>))"

text \<open>
  \<open>displayConfig\<close> reads \<open>config.name\<close>, where \<open>config = SCENARIOS[this.scenario]\<close>: a
  \<open>TypeError\<close> when \<open>config\<close> is \<open>undefined\<close>.  It only prints otherwise.
\<close>

definition displayConfig :: "runner \<Rightarrow> error + unit" where
  "displayConfig r =
     (case get_property SCENARIOS (scenario r) of
        Undefined \<Rightarrow> Inl (TypeError ''config.name'')
      | _ \<Rightarrow> Inr ())"

definition initialize :: "world \<Rightarrow> runner \<Rightarrow> error + runner" where
  "initialize w r =
     bind (call (w_createOrchestrator w
                   \<lparr>sessionName = ''todo-demo-'' @ scenario r,
                    totalBudget = budget r,
                    cfg_mockMode = mockMode r\<rparr>)) (\<lambda>_.
     bind (call (w_initialize w)) (\<lambda>_.
     bind (call (w_createCloudAPI w)) (\<lambda>_.
     bind (call (w_api_start w)) (\<lambda>_.
       Inr (r\<lparr>orchestrator := True, api := True\<rparr>)))))"

definition createAgent :: "world \<Rightarrow> string \<Rightarrow> template \<Rightarrow> error + agent" where
  "createAgent w nm t =
     w_createAgent w \<lparr>req_name = nm, req_template = t, maxConcurrentTasks = 2\<rparr>"

definition createAgents :: "world \<Rightarrow> runner \<Rightarrow> error + runner" where
  "createAgents w r =
     bind (createAgent w ''Alice-Analyst'' REQUIREMENTS_ANALYST) (\<lambda>a1.
     bind (createAgent w ''Bob-Developer'' SENIOR_DEVELOPER) (\<lambda>a2.
     bind (createAgent w ''Carol-QA'' QA_ENGINEER) (\<lambda>a3.
       let r3 = r\<lparr>agents := (agents r)(analyst \<mapsto> a1, developer \<mapsto> a2, tester \<mapsto> a3)\<rparr>
       in if scenario r \<noteq> ''basic'' then
            bind (createAgent w ''David-Reviewer'' CODE_REVIEWER) (\<lambda>a4.
            bind (createAgent w ''Eve-Frontend'' frontend_developer) (\<lambda>a5.
              Inr (r3\<lparr>agents := (agents r3)(reviewer \<mapsto> a4, frontend \<mapsto> a5)\<rparr>)))
          else Inr r3)))"

text \<open>
  Submitting one specification: \<open>this.agents.<key>.id\<close> is read first (a \<open>TypeError\<close>
  when no agent is stored under the key), then the orchestrator is called.
\<close>

definition queueTask :: "world \<Rightarrow> runner \<Rightarrow> task_spec \<Rightarrow> error + (task_spec \<times> string)" where
  "queueTask w r t =
     (case agents r (agentId t) of
        None \<Rightarrow> Inl (TypeError ''agent.id'')
      | Some a \<Rightarrow> bind (call (w_queueTask w t (agent_id a))) (\<lambda>_. Inr (t, agent_id a)))"

fun queue_all :: "world \<Rightarrow> runner \<Rightarrow> task_spec list \<Rightarrow> error + (task_spec \<times> string) list" where
  "queue_all w r [] = Inr []"
| "queue_all w r (t # ts) =
     bind (queueTask w r t) (\<lambda>q. bind (queue_all w r ts) (\<lambda>qs. Inr (q # qs)))"

text \<open>\<open>queueTasks\<close> returns the tasks it submitted, each with the agent identifier sent.\<close>

definition queueTasks :: "world \<Rightarrow> runner \<Rightarrow> error + (task_spec \<times> string) list" where
  "queueTasks w r = queue_all w r (queueTasks_specs (scenario r))"

definition event_names :: "runner \<Rightarrow> string list" where
  "event_names r =
     [''taskStarted'', ''taskProgress'', ''taskCompleted'', ''taskFailed'',
      ''qualityGateResult''] @ (if \<not> mockMode r then [''costUpdate''] else [])"

definition setupEventHandlers :: "world \<Rightarrow> runner \<Rightarrow> error + unit" where
  "setupEventHandlers w r = call_all (map (w_on w) (event_names r))"

definition execute :: "world \<Rightarrow> runner \<Rightarrow> error + unit" where
  "execute w r =
     bind (setupEventHandlers w r) (\<lambda>_.
     bind (call (w_startExecution w)) (\<lambda>_.
       call (w_waitForCompletion w)))"

text \<open>
  The callbacks \<open>setupEventHandlers\<close> registers, and the one the script registers for
  \<open>SIGINT\<close>, by what they do: each call of \<open>console.log\<close> is a \<open>Print\<close>, each call of
  \<open>console.error\<close> a \<open>PrintError\<close>; \<open>ExitProcess\<close> is a call of \<open>process.exit\<close> and
  \<open>Raise\<close> a thrown error.  An event carries what decides the calls: for a completed
  task, whether its result has artifacts.  The handler of \<open>costUpdate\<close> exists outside
  mock mode only.
\<close>

datatype effect = Print | PrintError | Raise error | ExitProcess nat

datatype runner_event =
  TaskStarted | TaskProgress | TaskCompleted bool | TaskFailed | QualityGateResult | CostUpdate

fun on_event :: "runner \<Rightarrow> runner_event \<Rightarrow> effect list" where
  "on_event r TaskStarted = [Print]"
| "on_event r TaskProgress = (if verbose r then [Print] else [])"
| "on_event r (TaskCompleted artifacts) = Print # (if artifacts then [Print] else [])"
| "on_event r TaskFailed = [PrintError, PrintError]"
| "on_event r QualityGateResult = [Print]"
| "on_event r CostUpdate = (if \<not> mockMode r then [Print] else [])"

definition on_SIGINT :: "effect list" where
  "on_SIGINT = [Print, ExitProcess 0]"

text \<open>
  \<open>displayResults\<close> prints the report; the value returned here is its local \<open>success\<close>,
  the status line it prints.  Outside mock mode it formats \<open>totalCost\<close> and
  \<open>totalTokens\<close>, a \<open>TypeError\<close> when the report lacks one of them.
\<close>

definition displayResults :: "world \<Rightarrow> runner \<Rightarrow> error + bool" where
  "displayResults w r =
     bind (w_getFinalReport w) (\<lambda>rep.
       let success = (tasksCompleted rep = totalTasks rep)
       in if \<not> mockMode r \<and> totalCost rep = None then Inl (TypeError ''report.totalCost.toFixed'')
          else if \<not> mockMode r \<and> totalTokens rep = None
            then Inl (TypeError ''report.totalTokens.toLocaleString'')
          else Inr success)"

text \<open>
  \<open>cleanup\<close> has its own handler: it ends the process, with status 0 when shutting down
  returned and with status 1 when it raised.
\<close>

definition cleanup :: "world \<Rightarrow> runner \<Rightarrow> nat" where
  "cleanup w r =
     (case bind (if orchestrator r then call (w_shutdown w) else Inr ()) (\<lambda>_.
                 if api r then call (w_api_stop w) else Inr ()) of
        Inl e \<Rightarrow> 1
      | Inr _ \<Rightarrow> 0)"

text \<open>
  How a call of \<open>run\<close> ends: the process exits with a status, or the promise \<open>run\<close>
  returned is rejected with no exit requested (the error was raised outside the
  \<open>try\<close> block).
\<close>

datatype outcome = Exit nat | Rejected error

definition try_block :: "world \<Rightarrow> runner \<Rightarrow> error + nat" where
  "try_block w r =
     bind (initialize w r) (\<lambda>r1.
     bind (createAgents w r1) (\<lambda>r2.
     bind (queueTasks w r2) (\<lambda>_.
     bind (execute w r2) (\<lambda>_.
     bind (displayResults w r2) (\<lambda>_.
       Inr (cleanup w r2))))))"

definition run :: "world \<Rightarrow> runner \<Rightarrow> outcome" where
  "run w r0 =
     (case (if interactive (argv w) then interactiveSetup w r0 else Inr r0) of
        Inl e \<Rightarrow> Rejected e
      | Inr r \<Rightarrow>
          (case displayConfig r of
             Inl e \<Rightarrow> Rejected e
           | Inr _ \<Rightarrow> (case try_block w r of Inl e \<Rightarrow> Exit 1 | Inr c \<Rightarrow> Exit c)))"

text \<open>
  The script attaches \<open>console.error\<close> to the promise of \<open>run\<close>.  A rejected run has
  requested no exit: the handler prints the error and the process ends by itself, with
  status 0.
\<close>

fun process_status :: "outcome \<Rightarrow> nat" where
  "process_status (Exit c) = c"
| "process_status (Rejected e) = 0"

text \<open>The part of \<open>run\<close> that precedes the \<open>try\<close> block.\<close>

definition before_try :: "world \<Rightarrow> runner \<Rightarrow> error + runner" where
  "before_try w r0 =
     bind (if interactive (argv w) then interactiveSetup w r0 else Inr r0) (\<lambda>r.
     bind (displayConfig r) (\<lambda>_. Inr r))"

text \<open>
  Every step of the \<open>try\<close> block returns: the five methods, and the two calls by which
  \<open>cleanup\<close> shuts down.  The value \<open>ok\<close> that \<open>displayResults\<close> computes is free.
\<close>

definition all_steps_return :: "world \<Rightarrow> runner \<Rightarrow> bool" where
  "all_steps_return w r \<longleftrightarrow>
     (\<exists>r1 r2 qs ok. initialize w r = Inr r1 \<and> createAgents w r1 = Inr r2 \<and>
        queueTasks w r2 = Inr qs \<and> execute w r2 = Inr () \<and> displayResults w r2 = Inr ok \<and>
        w_shutdown w = None \<and> w_api_stop w = None)"

text \<open>
  \<open>getScenarioConfig\<close> of the package index reads \<open>scenarios/config.json\<close>, which is a
  parameter here: the object under its \<open>scenarios\<close> key, whose values are objects.
  \<open>None\<close> is \<open>null\<close>.
\<close>

definition getScenarioConfig :: "(string \<rightharpoonup> 'c) \<Rightarrow> string \<Rightarrow> 'c property option" where
  "getScenarioConfig scenarios scenarioId =
     (case get_property scenarios scenarioId of
        Undefined \<Rightarrow> None
      | p \<Rightarrow> Some p)"

section \<open>The end-to-end check\<close>

text \<open>
  The events the check listens to, with the parts of the payload its handlers read:
  the objective of the task, the gate's name, the status of its result and the task's
  identifier.
\<close>

datatype event =
  taskCompleted string
  | taskFailed string
  | qualityGateResult string string string

record gate_record =
  gate :: string
  status :: string
  task :: string

record counters =
  completedTasks :: nat
  failedTasks :: nat
  qualityGateResults :: "gate_record list"

fun handle :: "counters \<Rightarrow> event \<Rightarrow> counters" where
  "handle c (taskCompleted obj) = c\<lparr>completedTasks := completedTasks c + 1\<rparr>"
| "handle c (taskFailed obj) = c\<lparr>failedTasks := failedTasks c + 1\<rparr>"
| "handle c (qualityGateResult g st t) =
     c\<lparr>qualityGateResults := qualityGateResults c @ [\<lparr>gate = g, status = st, task = t\<rparr>]\<rparr>"

definition handle_all :: "event list \<Rightarrow> counters" where
  "handle_all evs =
     foldl handle \<lparr>completedTasks = 0, failedTasks = 0, qualityGateResults = []\<rparr> evs"

text \<open>
  The accumulator of the \<open>reduce\<close> that counts statuses is a plain object.  A count is
  a number; \<open>(acc[k] || 0) + 1\<close> is a string when \<open>acc[k]\<close> is an inherited property
  or already a string, since \<open>+\<close> then concatenates.  Assigning a string to
  \<open>__proto__\<close> changes nothing.
\<close>

datatype tally = Number nat | Concatenated

definition count_status :: "(string \<rightharpoonup> tally) \<Rightarrow> gate_record \<Rightarrow> (string \<rightharpoonup> tally)" where
  "count_status acc r =
     (let k = status r in
      case get_property acc k of
        Own (Number n) \<Rightarrow> acc(k \<mapsto> Number (n + 1))
      | Own Concatenated \<Rightarrow> acc(k \<mapsto> Concatenated)
      | Inherited \<Rightarrow> if k = ''__proto__'' then acc else acc(k \<mapsto> Concatenated)
      | Undefined \<Rightarrow> acc(k \<mapsto> Number 1))"

definition gateStatuses :: "gate_record list \<Rightarrow> (string \<rightharpoonup> tally)" where
  "gateStatuses rs = foldl count_status Map.empty rs"

text \<open>One more occurrence of a status that is not an inherited name.\<close>

fun bump :: "tally option \<Rightarrow> tally option" where
  "bump None = Some (Number 1)"
| "bump (Some (Number n)) = Some (Number (n + 1))"
| "bump (Some Concatenated) = Some Concatenated"

definition occurrences :: "string \<Rightarrow> gate_record list \<Rightarrow> nat" where
  "occurrences k rs = length (filter (\<lambda>r. status r = k) rs)"

text \<open>\<open>x > 0\<close> for a property read from the accumulator.\<close>

fun positive :: "tally property \<Rightarrow> bool" where
  "positive (Own (Number n)) = (0 < n)"
| "positive (Own Concatenated) = False"
| "positive Inherited = False"
| "positive Undefined = False"

definition hasFailedGates :: "gate_record list \<Rightarrow> bool" where
  "hasFailedGates rs \<longleftrightarrow>
     positive (get_property (gateStatuses rs) ''failed'') \<or>
     positive (get_property (gateStatuses rs) ''error'')"

definition allTestsPassed :: "report \<Rightarrow> counters \<Rightarrow> nat \<Rightarrow> bool" where
  "allTestsPassed rep c n \<longleftrightarrow>
     list_all (\<lambda>test. test = True)
       [tasksCompleted rep = n,
        tasksFailed rep = 0,
        failedTasks c = 0,
        completedTasks c = n,
        0 < length (qualityGateResults c)]"

definition artifactsCreated :: "bool list \<Rightarrow> bool" where
  "artifactsCreated checks \<longleftrightarrow> list_all (\<lambda>check. check = True) checks"

definition testSuccess :: "report \<Rightarrow> counters \<Rightarrow> nat \<Rightarrow> bool list \<Rightarrow> bool" where
  "testSuccess rep c n checks \<longleftrightarrow>
     allTestsPassed rep c n \<and> artifactsCreated checks \<and> \<not> hasFailedGates (qualityGateResults c)"

text \<open>
  What happens first once the timer is armed: the promise of \<open>waitForCompletion\<close>
  resolves, it rejects, or the timer fires while it is still pending.
\<close>

datatype wait_result = Completion | Rejection error | TimerFirst

record e2e_world =
  e_createOrchestrator :: "error option"
  e_initialize :: "error option"
  e_createCloudAPI :: "error option"
  e_api_start :: "error option"
  e_createAgent :: "agent_request \<Rightarrow> error + agent"
  e_queueTask :: "task_spec \<Rightarrow> string \<Rightarrow> error option"
  e_on :: "string \<Rightarrow> error option"
  e_startExecution :: "error option"
  e_events :: "event list"
  e_wait :: wait_result
  e_getFinalReport :: "error + report"
  e_access :: "string \<Rightarrow> bool"

definition e2e_comprehend :: task_spec where
  "e2e_comprehend =
     \<lparr>id' = ''e2e-comprehend'', type' = comprehension,
      objective = ''Analyze TODO API requirements'',
      task_description = Some ''Simple TODO API with CRUD operations'',
      dependencies = None, context' = None, successCriteria = None,
      specificChecks = None, qualityGates = None,
      maxTokens = 10000, agentId = analyst\<rparr>"

definition e2e_generate :: task_spec where
  "e2e_generate =
     \<lparr>id' = ''e2e-generate'', type' = generation,
      objective = ''Generate TODO API code'',
      task_description = None,
      dependencies = Some [''e2e-comprehend''],
      context' = Some [''.repochief/artifacts/e2e-comprehend/analysis.md''],
      successCriteria = Some [''Express API'', ''CRUD endpoints''],
      specificChecks = None,
      qualityGates = Some [''eslint'', ''complexity''],
      maxTokens = 20000, agentId = developer\<rparr>"

definition e2e_test :: task_spec where
  "e2e_test =
     \<lparr>id' = ''e2e-test'', type' = generation,
      objective = ''Generate tests'',
      task_description = None,
      dependencies = Some [''e2e-generate''],
      context' = Some [''.repochief/artifacts/e2e-generate/code/''],
      successCriteria = Some [''Unit tests'', ''Test coverage''],
      specificChecks = None,
      qualityGates = Some [''test''],
      maxTokens = 15000, agentId = tester\<rparr>"

definition e2e_agents :: "e2e_world \<Rightarrow> error + (agent_key \<rightharpoonup> agent)" where
  "e2e_agents w =
     bind (e_createAgent w \<lparr>req_name = ''Test-Analyst'', req_template = REQUIREMENTS_ANALYST,
                            maxConcurrentTasks = 1\<rparr>) (\<lambda>a1.
     bind (e_createAgent w \<lparr>req_name = ''Test-Developer'', req_template = SENIOR_DEVELOPER,
                            maxConcurrentTasks = 2\<rparr>) (\<lambda>a2.
     bind (e_createAgent w \<lparr>req_name = ''Test-QA'', req_template = QA_ENGINEER,
                            maxConcurrentTasks = 1\<rparr>) (\<lambda>a3.
       Inr [analyst \<mapsto> a1, developer \<mapsto> a2, tester \<mapsto> a3])))"

fun e2e_queue :: "e2e_world \<Rightarrow> (agent_key \<rightharpoonup> agent) \<Rightarrow> task_spec list \<Rightarrow> error + task_spec list" where
  "e2e_queue w ags [] = Inr []"
| "e2e_queue w ags (t # ts) =
     (case ags (agentId t) of
        None \<Rightarrow> Inl (TypeError ''agent.id'')
      | Some a \<Rightarrow>
          bind (call (e_queueTask w t (agent_id a))) (\<lambda>_.
          bind (e2e_queue w ags ts) (\<lambda>qs. Inr (t # qs))))"

text \<open>The three files the check looks for, relative to the working directory.\<close>

definition artifact_paths :: "string list" where
  "artifact_paths =
     [''.repochief/artifacts/e2e-test-todo/artifacts/e2e-comprehend-result.json'',
      ''.repochief/artifacts/e2e-test-todo/artifacts/e2e-generate-result.json'',
      ''.repochief/artifacts/e2e-test-todo/artifacts/e2e-test-result.json'']"

text \<open>Steps 1 to 5 up to the arming of the timer; the result is the list \<open>tasks\<close>.\<close>

definition e2e_start :: "e2e_world \<Rightarrow> error + task_spec list" where
  "e2e_start w =
     bind (call_all [e_createOrchestrator w, e_initialize w, e_createCloudAPI w,
                     e_api_start w]) (\<lambda>_.
     bind (e2e_agents w) (\<lambda>ags.
     bind (e2e_queue w ags [e2e_comprehend, e2e_generate, e2e_test]) (\<lambda>tasks.
     bind (call_all (map (e_on w) [''taskCompleted'', ''taskFailed'', ''qualityGateResult''])) (\<lambda>_.
     bind (call (e_startExecution w)) (\<lambda>_.
       Inr tasks)))))"

text \<open>Steps 6 and 7, once \<open>waitForCompletion\<close> has returned and the timer is cleared.\<close>

definition e2e_verify :: "e2e_world \<Rightarrow> task_spec list \<Rightarrow> error + bool" where
  "e2e_verify w tasks =
     bind (e_getFinalReport w) (\<lambda>rep.
       Inr (testSuccess rep (handle_all (e_events w)) (length tasks)
              (map (e_access w) artifact_paths)))"

text \<open>
  How the check ends.  An error inside the \<open>try\<close> block is caught and the function
  returns \<open>false\<close>.  The error the timer's callback throws is raised outside the
  function, on a stack of its own: no handler of the file sees it.  The \<open>finally\<close>
  block swallows what \<open>api.stop()\<close> rejects with, and does not change the result.
\<close>

datatype e2e_outcome = Returned bool | Uncaught error

definition runE2ETest :: "e2e_world \<Rightarrow> e2e_outcome" where
  "runE2ETest w =
     (case e2e_start w of
        Inl e \<Rightarrow> Returned False
      | Inr tasks \<Rightarrow>
          (case e_wait w of
             TimerFirst \<Rightarrow> Uncaught (Error ''Execution timeout after 30 seconds'')
           | Rejection e \<Rightarrow> Returned False
           | Completion \<Rightarrow>
               (case e2e_verify w tasks of Inl e \<Rightarrow> Returned False | Inr b \<Rightarrow> Returned b)))"

text \<open>
  The exit status: \<open>process.exit(success ? 0 : 1)\<close> for a returned verdict; the runtime
  ends a process with status 1 on an uncaught exception.
\<close>

fun exit_status :: "e2e_outcome \<Rightarrow> nat" where
  "exit_status (Returned b) = (if b then 0 else 1)"
| "exit_status (Uncaught e) = 1"

section \<open>Properties of a task list\<close>

text \<open>
  The edges of the dependency graph, from a task to each task it depends on, and the
  check that every dependency names a task that stands earlier in the list.
\<close>

definition dependency_edges :: "task_spec list \<Rightarrow> (string \<times> string) set" where
  "dependency_edges ts = {(id' t, d) | t d. t \<in> set ts \<and> d \<in> set (deps_of t)}"

fun deps_defined_earlier :: "string list \<Rightarrow> task_spec list \<Rightarrow> bool" where
  "deps_defined_earlier seen [] = True"
| "deps_defined_earlier seen (t # ts) =
     (list_all (\<lambda>d. d \<in> set seen) (deps_of t) \<and> deps_defined_earlier (seen @ [id' t]) ts)"

fun pos :: "'a \<Rightarrow> 'a list \<Rightarrow> nat" where
  "pos x [] = 0"
| "pos x (y # ys) = (if x = y then 0 else Suc (pos x ys))"

section \<open>Concrete runs\<close>

text \<open>
  A world in which every external call returns: the orchestrator names each agent's
  identifier after the agent, and reports three tasks out of three.
\<close>

definition agent_named :: "string \<Rightarrow> agent" where
  "agent_named nm = \<lparr>agent_id = nm, agent_name = nm, agent_role = ''agent''\<rparr>"

definition mock_report :: report where
  "mock_report =
     \<lparr>tasksCompleted = 3, totalTasks = 3, tasksFailed = 0, totalCost = None,
      totalTokens = None, duration = 1200\<rparr>"

definition mock_world :: world where
  "mock_world =
     \<lparr>argv = [''node'', ''run-demo.js'', ''--non-interactive''],
      w_prompt = Inl (Error ''no terminal''),
      w_createOrchestrator = (\<lambda>c. None),
      w_initialize = None,
      w_createCloudAPI = None,
      w_api_start = None,
      w_createAgent = (\<lambda>q. Inr (agent_named (req_name q))),
      w_queueTask = (\<lambda>t a. None),
      w_on = (\<lambda>ev. None),
      w_startExecution = None,
      w_waitForCompletion = None,
      w_getFinalReport = Inr mock_report,
      w_shutdown = None,
      w_api_stop = None\<rparr>"

definition scenario_options :: "string \<Rightarrow> options" where
  "scenario_options s =
     \<lparr>opt_scenario = Some s, opt_mockMode = None, opt_budget = None, opt_verbose = None\<rparr>"

definition core_agents :: "agent_key \<rightharpoonup> agent" where
  "core_agents =
     [analyst \<mapsto> agent_named ''Alice-Analyst'',
      developer \<mapsto> agent_named ''Bob-Developer'',
      tester \<mapsto> agent_named ''Carol-QA'']"

definition all_agents :: "agent_key \<rightharpoonup> agent" where
  "all_agents =
     core_agents(reviewer \<mapsto> agent_named ''David-Reviewer'',
                 frontend \<mapsto> agent_named ''Eve-Frontend'')"

definition failed_task_world :: world where
  "failed_task_world =
     mock_world\<lparr>w_getFinalReport :=
       Inr (mock_report\<lparr>tasksCompleted := 2, tasksFailed := 1\<rparr>)\<rparr>"

text \<open>
  A run of the end-to-end check in which every call returns, the three tasks complete,
  the artifacts exist, and the gates report \<open>fail\<close>, \<open>pass\<close> and \<open>skipped\<close>.
\<close>

definition e2e_mock_world :: e2e_world where
  "e2e_mock_world =
     \<lparr>e_createOrchestrator = None,
      e_initialize = None,
      e_createCloudAPI = None,
      e_api_start = None,
      e_createAgent = (\<lambda>q. Inr (agent_named (req_name q))),
      e_queueTask = (\<lambda>t a. None),
      e_on = (\<lambda>ev. None),
      e_startExecution = None,
      e_events =
        [taskCompleted ''Analyze TODO API requirements'',
         qualityGateResult ''eslint'' ''fail'' ''e2e-generate'',
         qualityGateResult ''complexity'' ''pass'' ''e2e-generate'',
         taskCompleted ''Generate TODO API code'',
         qualityGateResult ''test'' ''skipped'' ''e2e-test'',
         taskCompleted ''Generate tests''],
      e_wait = Completion,
      e_getFinalReport = Inr mock_report,
      e_access = (\<lambda>p. True)\<rparr>"

text \<open>The same world with an orchestrator that refuses every task.\<close>

definition refusing_world :: world where
  "refusing_world = mock_world\<lparr>w_queueTask := (\<lambda>t a. Some (Error ''refused''))\<rparr>"


section \<open>Auxiliary facts\<close>

lemmas task_defs =
  comprehend_task_def generate_task_def test_task_def validate_task_def frontend_task_def

lemma bind_Inr: "bind m f = Inr y \<longleftrightarrow> (\<exists>x. m = Inr x \<and> f x = Inr y)"
  by (cases m) (simp_all add: bind_def)

lemma bind_Inl: "bind m f = Inl e \<longleftrightarrow> m = Inl e \<or> (\<exists>x. m = Inr x \<and> f x = Inl e)"
  by (cases m) (simp_all add: bind_def)

lemma call_Inr: "call c = Inr u \<longleftrightarrow> c = None"
  by (cases c) (simp_all add: call_def)

lemma queueTask_Inr:
  "queueTask w r t = Inr q \<longleftrightarrow>
     (\<exists>a. agents r (agentId t) = Some a \<and> w_queueTask w t (agent_id a) = None \<and>
          q = (t, agent_id a))"
  by (cases "agents r (agentId t)") (auto simp: queueTask_def bind_Inr call_Inr)

text \<open>What \<open>queueTasks\<close> submitted, when it returns, is the list of specifications.\<close>

lemma queue_all_specs: "queue_all w r ts = Inr qs \<Longrightarrow> map fst qs = ts"
  by (induction ts arbitrary: qs) (auto simp: bind_Inr queueTask_Inr)

lemma task_ids_queueTasks_specs:
  "task_ids (queueTasks_specs s) =
     [''comprehend-todo-api'', ''generate-todo-api'', ''test-todo-api''] @
     (if s \<noteq> ''basic'' then [''validate-todo-api'', ''generate-todo-frontend''] else [])"
  by (simp add: queueTasks_specs_def task_ids_def task_defs)

lemma pos_less: "x \<in> set xs \<Longrightarrow> pos x (xs @ ys) < length xs"
  by (induction xs) auto

lemma pos_fresh: "x \<notin> set xs \<Longrightarrow> pos x (xs @ x # ys) = length xs"
  by (induction xs) auto

text \<open>
  In a list with distinct identifiers whose dependencies are all defined earlier, every
  edge of the graph leads to a strictly earlier position.
\<close>

lemma deps_point_back:
  assumes "deps_defined_earlier seen ts"
    and "distinct (seen @ map id' ts)"
    and "t \<in> set ts"
    and "d \<in> set (deps_of t)"
  shows "pos d (seen @ map id' ts) < pos (id' t) (seen @ map id' ts)"
  using assms
proof (induction ts arbitrary: seen)
  case Nil
  then show ?case by simp
next
  case (Cons u us)
  show ?case
  proof (cases "t = u")
    case True
    with Cons.prems have "d \<in> set seen" and "id' u \<notin> set seen"
      by (auto simp: list_all_iff)
    then show ?thesis
      using True by (simp add: pos_less pos_fresh)
  next
    case False
    with Cons.prems have "t \<in> set us" by simp
    moreover from Cons.prems have "deps_defined_earlier (seen @ [id' u]) us"
      and "distinct ((seen @ [id' u]) @ map id' us)"
      by auto
    ultimately have
      "pos d ((seen @ [id' u]) @ map id' us) < pos (id' t) ((seen @ [id' u]) @ map id' us)"
      using Cons.IH Cons.prems(4) by blast
    then show ?thesis by simp
  qed
qed

lemma earlier_deps_acyclic:
  assumes "deps_defined_earlier [] ts" and "distinct (task_ids ts)"
  shows "acyclic (dependency_edges ts)"
proof -
  let ?rank = "\<lambda>x. pos x (map id' ts)"
  have "dependency_edges ts \<subseteq> (measure ?rank)\<inverse>"
    using deps_point_back [of "[]" ts] assms
    by (auto simp: dependency_edges_def task_ids_def)
  moreover have "acyclic ((measure ?rank)\<inverse>)"
    by (simp add: wf_acyclic)
  ultimately show ?thesis
    by (rule acyclic_subset [rotated])
qed

lemma queueTasks_mock_basic:
  "queueTasks mock_world ((constructor (scenario_options ''basic''))\<lparr>agents := core_agents\<rparr>) =
     Inr [(comprehend_task ''basic'', ''Alice-Analyst''),
          (generate_task ''basic'', ''Bob-Developer''),
          (test_task, ''Carol-QA'')]"
  by (simp add: queueTasks_def queueTasks_specs_def queueTask_def mock_world_def
      constructor_def scenario_options_def or_basic_def bind_def call_def core_agents_def
      agent_named_def task_defs)

subsection \<open>The runner\<close>

lemma initialize_flags:
  "initialize w r = Inr r1 \<Longrightarrow> orchestrator r1 \<and> api r1 \<and> scenario r1 = scenario r"
  by (auto simp: initialize_def bind_Inr)

lemma createAgents_flags:
  "createAgents w r = Inr r' \<Longrightarrow>
     orchestrator r' = orchestrator r \<and> api r' = api r \<and> scenario r' = scenario r \<and>
     mockMode r' = mockMode r"
  by (auto simp: createAgents_def bind_Inr Let_def split: if_splits)

lemma cleanup_0:
  "orchestrator r \<Longrightarrow> api r \<Longrightarrow> cleanup w r = 0 \<longleftrightarrow> w_shutdown w = None \<and> w_api_stop w = None"
  by (cases "w_shutdown w"; cases "w_api_stop w") (simp_all add: cleanup_def bind_def call_def)

lemma cleanup_cases: "cleanup w r = 0 \<or> cleanup w r = 1"
  by (simp add: cleanup_def split: sum.split)

lemma try_block_Inr:
  "try_block w r = Inr c \<longleftrightarrow>
     (\<exists>r1 r2 qs ok. initialize w r = Inr r1 \<and> createAgents w r1 = Inr r2 \<and>
        queueTasks w r2 = Inr qs \<and> execute w r2 = Inr () \<and> displayResults w r2 = Inr ok \<and>
        c = cleanup w r2)"
  by (auto simp: try_block_def bind_Inr)

lemma run_Exit:
  "run w r0 = Exit c \<longleftrightarrow>
     (\<exists>r. before_try w r0 = Inr r \<and>
        (case try_block w r of Inl e \<Rightarrow> c = 1 | Inr c' \<Rightarrow> c = c'))"
  by (auto simp: run_def before_try_def bind_Inr split: sum.splits)

lemma run_Rejected: "run w r0 = Rejected e \<longleftrightarrow> before_try w r0 = Inl e"
  by (auto simp: run_def before_try_def bind_def split: sum.splits)

lemma try_block_0: "try_block w r = Inr 0 \<longleftrightarrow> all_steps_return w r"
proof
  assume "try_block w r = Inr 0"
  then obtain r1 r2 qs ok where s: "initialize w r = Inr r1" "createAgents w r1 = Inr r2"
    "queueTasks w r2 = Inr qs" "execute w r2 = Inr ()" "displayResults w r2 = Inr ok"
    and c: "cleanup w r2 = 0"
    unfolding try_block_Inr by auto
  from s(1,2) have "orchestrator r2" "api r2"
    using initialize_flags createAgents_flags by blast+
  with c have "w_shutdown w = None \<and> w_api_stop w = None"
    by (simp add: cleanup_0)
  with s show "all_steps_return w r"
    unfolding all_steps_return_def by blast
next
  assume "all_steps_return w r"
  then obtain r1 r2 qs ok where s: "initialize w r = Inr r1" "createAgents w r1 = Inr r2"
    "queueTasks w r2 = Inr qs" "execute w r2 = Inr ()" "displayResults w r2 = Inr ok"
    and c: "w_shutdown w = None" "w_api_stop w = None"
    unfolding all_steps_return_def by auto
  from s(1,2) have "orchestrator r2" "api r2"
    using initialize_flags createAgents_flags by blast+
  with c have "cleanup w r2 = 0"
    by (simp add: cleanup_0)
  with s show "try_block w r = Inr 0"
    unfolding try_block_Inr by force
qed

lemma try_block_values: "try_block w r = Inr c \<Longrightarrow> c = 0 \<or> c = 1"
  using cleanup_cases by (auto simp: try_block_Inr)

text \<open>No step but \<open>displayResults\<close> reads the report, and \<open>run\<close> drops what it returns.\<close>

lemma queue_all_report:
  "queue_all (w\<lparr>w_getFinalReport := x\<rparr>) r ts = queue_all w r ts"
  by (induction ts) (simp_all add: queueTask_def split: option.split)

lemma displayResults_report:
  "bind (displayResults
           (w\<lparr>w_getFinalReport :=
                Inr (rep\<lparr>tasksCompleted := a, totalTasks := b, tasksFailed := c\<rparr>)\<rparr>) r)
      (\<lambda>_. k)
   = bind (displayResults (w\<lparr>w_getFinalReport := Inr rep\<rparr>) r) (\<lambda>_. k)"
  by (simp add: displayResults_def bind_def Let_def)

lemma createAgent_report:
  "createAgent (w\<lparr>w_getFinalReport := x\<rparr>) nm t = createAgent w nm t"
  by (simp add: createAgent_def)

lemma steps_report:
  "initialize (w\<lparr>w_getFinalReport := x\<rparr>) r = initialize w r"
  "createAgents (w\<lparr>w_getFinalReport := x\<rparr>) r = createAgents w r"
  "queueTasks (w\<lparr>w_getFinalReport := x\<rparr>) r = queueTasks w r"
  "execute (w\<lparr>w_getFinalReport := x\<rparr>) r = execute w r"
  "cleanup (w\<lparr>w_getFinalReport := x\<rparr>) r = cleanup w r"
  by (simp_all add: initialize_def createAgents_def createAgent_report queueTasks_def
      queue_all_report execute_def setupEventHandlers_def cleanup_def Let_def cong: if_cong)

lemma report_irrelevant:
  "try_block
     (w\<lparr>w_getFinalReport :=
          Inr (rep\<lparr>tasksCompleted := a, totalTasks := b, tasksFailed := c\<rparr>)\<rparr>) r =
   try_block (w\<lparr>w_getFinalReport := Inr rep\<rparr>) r"
  by (simp add: try_block_def steps_report displayResults_report)

lemma run_alt:
  "run w r0 =
     (case before_try w r0 of
        Inl e \<Rightarrow> Rejected e
      | Inr r \<Rightarrow> Exit (case try_block w r of Inl e \<Rightarrow> 1 | Inr c \<Rightarrow> c))"
  by (simp add: run_def before_try_def bind_def split: sum.splits)

lemma before_try_report: "before_try (w\<lparr>w_getFinalReport := x\<rparr>) r0 = before_try w r0"
  by (simp add: before_try_def interactiveSetup_def)

subsection \<open>Counting gate statuses\<close>

lemma count_status_other: "status r \<noteq> k \<Longrightarrow> count_status acc r k = acc k"
  by (auto simp: count_status_def Let_def split: property.splits tally.splits)

lemma count_status_same:
  "status r = k \<Longrightarrow> k \<notin> set Object_prototype_properties \<Longrightarrow>
   count_status acc r k = bump (acc k)"
  by (cases "acc k" rule: bump.cases) (simp_all add: count_status_def get_property_def)

lemma foldl_count_status:
  "k \<notin> set Object_prototype_properties \<Longrightarrow>
   foldl count_status acc rs k = (bump ^^ occurrences k rs) (acc k)"
proof (induction rs arbitrary: acc)
  case Nil
  then show ?case by (simp add: occurrences_def)
next
  case (Cons r rs)
  show ?case
  proof (cases "status r = k")
    case True
    with Cons show ?thesis
      by (simp add: occurrences_def count_status_same funpow_swap1)
  next
    case False
    with Cons show ?thesis
      by (simp add: occurrences_def count_status_other)
  qed
qed

lemma bump_funpow_None: "(bump ^^ n) None = (if n = 0 then None else Some (Number n))"
  by (induction n) auto

text \<open>The accumulator holds, under a status, the number of results with that status.\<close>

lemma gateStatuses_count:
  "k \<notin> set Object_prototype_properties \<Longrightarrow>
   gateStatuses rs k = (if occurrences k rs = 0 then None else Some (Number (occurrences k rs)))"
  by (simp add: gateStatuses_def foldl_count_status bump_funpow_None)

lemma occurrences_0: "occurrences k rs = 0 \<longleftrightarrow> (\<forall>r\<in>set rs. status r \<noteq> k)"
  by (auto simp: occurrences_def filter_empty_conv)

lemma positive_gateStatuses:
  "k \<notin> set Object_prototype_properties \<Longrightarrow>
   positive (get_property (gateStatuses rs) k) \<longleftrightarrow> (\<exists>r\<in>set rs. status r = k)"
  using occurrences_0 [of k rs]
  by (auto simp: get_property_def gateStatuses_count)

lemma hasFailedGates_iff:
  "hasFailedGates rs \<longleftrightarrow> (\<exists>r\<in>set rs. status r = ''failed'' \<or> status r = ''error'')"
  by (auto simp: hasFailedGates_def positive_gateStatuses Object_prototype_properties_def)

lemma e2e_start_mock: "e2e_start e2e_mock_world = Inr [e2e_comprehend, e2e_generate, e2e_test]"
  by (simp add: e2e_start_def e2e_mock_world_def bind_def call_def e2e_agents_def
      e2e_comprehend_def e2e_generate_def e2e_test_def agent_named_def)

lemma handle_all_mock:
  "handle_all (e_events e2e_mock_world) =
     \<lparr>completedTasks = 3, failedTasks = 0,
      qualityGateResults =
        [\<lparr>gate = ''eslint'', status = ''fail'', task = ''e2e-generate''\<rparr>,
         \<lparr>gate = ''complexity'', status = ''pass'', task = ''e2e-generate''\<rparr>,
         \<lparr>gate = ''test'', status = ''skipped'', task = ''e2e-test''\<rparr>]\<rparr>"
  by (simp add: handle_all_def e2e_mock_world_def)

lemma hasFailedGates_mock:
  "\<not> hasFailedGates (qualityGateResults (handle_all (e_events e2e_mock_world)))"
  by (simp add: handle_all_mock hasFailedGates_iff)

lemma e2e_verify_mock:
  "e2e_verify e2e_mock_world [e2e_comprehend, e2e_generate, e2e_test] = Inr True"
  using hasFailedGates_mock
  by (simp add: e2e_verify_def bind_def testSuccess_def handle_all_mock allTestsPassed_def
        artifactsCreated_def artifact_paths_def)
     (simp add: e2e_mock_world_def mock_report_def)

subsection \<open>The concrete worlds\<close>

lemma before_try_mock:
  "before_try (mock_world\<lparr>w_getFinalReport := x\<rparr>) (constructor (scenario_options ''basic'')) =
     Inr (constructor (scenario_options ''basic''))"
  by (simp add: before_try_def mock_world_def interactive_def displayConfig_def
      get_property_def SCENARIOS_def constructor_def scenario_options_def or_basic_def bind_def)

lemma initialize_mock:
  "initialize (mock_world\<lparr>w_getFinalReport := x\<rparr>) r =
     Inr (r\<lparr>orchestrator := True, api := True\<rparr>)"
  by (simp add: initialize_def mock_world_def bind_def call_def)

lemma createAgents_mock:
  "createAgents mock_world r =
     Inr (r\<lparr>agents :=
            if scenario r \<noteq> ''basic''
            then (agents r)(analyst \<mapsto> agent_named ''Alice-Analyst'',
                   developer \<mapsto> agent_named ''Bob-Developer'',
                   tester \<mapsto> agent_named ''Carol-QA'',
                   reviewer \<mapsto> agent_named ''David-Reviewer'',
                   frontend \<mapsto> agent_named ''Eve-Frontend'')
            else (agents r)(analyst \<mapsto> agent_named ''Alice-Analyst'',
                   developer \<mapsto> agent_named ''Bob-Developer'',
                   tester \<mapsto> agent_named ''Carol-QA'')\<rparr>)"
  by (simp add: createAgents_def createAgent_def mock_world_def bind_def Let_def)

lemma queue_all_mock:
  "list_all (\<lambda>t. agents r (agentId t) \<noteq> None) ts \<Longrightarrow>
   \<exists>qs. queue_all mock_world r ts = Inr qs"
  by (induction ts) (auto simp: queueTask_def mock_world_def bind_def call_def)

lemma execute_mock: "execute mock_world r = Inr ()"
  by (simp add: execute_def setupEventHandlers_def event_names_def mock_world_def bind_def
      call_def)

text \<open>In mock mode every step returns in \<open>mock_world\<close>, whatever the report says.\<close>

lemma all_steps_return_mock:
  assumes "mockMode r"
  shows "all_steps_return (mock_world\<lparr>w_getFinalReport := Inr rep\<rparr>) r"
proof -
  let ?w = "mock_world\<lparr>w_getFinalReport := Inr rep\<rparr>"
  let ?r1 = "r\<lparr>orchestrator := True, api := True\<rparr>"
  obtain r2 where r2: "createAgents ?w ?r1 = Inr r2"
    and ag: "list_all (\<lambda>t. agents r2 (agentId t) \<noteq> None) (queueTasks_specs (scenario r2))"
    and m: "mockMode r2"
    using assms
    by (simp add: steps_report createAgents_mock queueTasks_specs_def task_defs)
  from ag obtain qs where "queueTasks ?w r2 = Inr qs"
    using queue_all_mock [of r2 "queueTasks_specs (scenario r2)"]
    by (auto simp: queue_all_report queueTasks_def)
  moreover have "execute ?w r2 = Inr ()"
    by (simp add: steps_report execute_mock)
  moreover from m have "displayResults ?w r2 = Inr (tasksCompleted rep = totalTasks rep)"
    by (simp add: displayResults_def bind_def)
  moreover have "w_shutdown ?w = None" "w_api_stop ?w = None"
    by (simp_all add: mock_world_def)
  ultimately show ?thesis
    unfolding all_steps_return_def using initialize_mock r2 by blast
qed

lemma run_mock_basic:
  "run (mock_world\<lparr>w_getFinalReport := Inr rep\<rparr>) (constructor (scenario_options ''basic'')) =
     Exit 0"
proof -
  have "mockMode (constructor (scenario_options ''basic''))"
    by (simp add: constructor_def scenario_options_def)
  then have "try_block (mock_world\<lparr>w_getFinalReport := Inr rep\<rparr>)
      (constructor (scenario_options ''basic'')) = Inr 0"
    by (simp add: try_block_0 all_steps_return_mock)
  then show ?thesis
    by (simp add: run_alt before_try_mock)
qed

text \<open>
  An identifier that names an inherited property, such as \<open>toString\<close>, passes
  \<open>displayConfig\<close>; the run then proceeds with the task list of every scenario other
  than \<open>basic\<close>.
\<close>

lemma inherited_property_name_runs_as_fullstack:
  "run (mock_world\<lparr>w_getFinalReport := Inr rep\<rparr>)
     (constructor (scenario_options ''toString'')) = Exit 0"
  "queueTasks_specs (scenario (constructor (scenario_options ''toString''))) =
     queueTasks_specs ''fullstack''"
proof -
  let ?r = "constructor (scenario_options ''toString'')"
  have "before_try (mock_world\<lparr>w_getFinalReport := Inr rep\<rparr>) ?r = Inr ?r"
    by (simp add: before_try_def mock_world_def interactive_def displayConfig_def
      get_property_def SCENARIOS_def constructor_def scenario_options_def or_basic_def bind_def
      Object_prototype_properties_def)
  moreover have "mockMode ?r"
    by (simp add: constructor_def scenario_options_def)
  then have "try_block (mock_world\<lparr>w_getFinalReport := Inr rep\<rparr>) ?r = Inr 0"
    by (simp add: try_block_0 all_steps_return_mock)
  ultimately show "run (mock_world\<lparr>w_getFinalReport := Inr rep\<rparr>) ?r = Exit 0"
    by (simp add: run_alt)
  show "queueTasks_specs (scenario ?r) = queueTasks_specs ''fullstack''"
    by (simp add: constructor_def scenario_options_def or_basic_def queueTasks_specs_def
        task_defs getRequirementsDescription_def getApiSuccessCriteria_def)
qed

lemma e2e_start_wait: "e2e_start (w\<lparr>e_wait := x\<rparr>) = e2e_start w"
proof -
  have "e2e_queue (w\<lparr>e_wait := x\<rparr>) ags ts = e2e_queue w ags ts" for ags ts
    by (induction ts) (simp_all split: option.split)
  then show ?thesis
    by (simp add: e2e_start_def e2e_agents_def del: e2e_queue.simps)
qed

subsection \<open>Agents and submissions\<close>

text \<open>
  For the \<open>basic\<close> scenario \<open>createAgents\<close> returns exactly when the orchestrator
  creates the three agents requested, and stores them under their keys.
\<close>

lemma createAgents_basic_iff:
  assumes "scenario r = ''basic''"
  shows "createAgents w r = Inr r' \<longleftrightarrow>
     (\<exists>a1 a2 a3.
        w_createAgent w \<lparr>req_name = ''Alice-Analyst'', req_template = REQUIREMENTS_ANALYST,
                          maxConcurrentTasks = 2\<rparr> = Inr a1 \<and>
        w_createAgent w \<lparr>req_name = ''Bob-Developer'', req_template = SENIOR_DEVELOPER,
                          maxConcurrentTasks = 2\<rparr> = Inr a2 \<and>
        w_createAgent w \<lparr>req_name = ''Carol-QA'', req_template = QA_ENGINEER,
                          maxConcurrentTasks = 2\<rparr> = Inr a3 \<and>
        r' = r\<lparr>agents := (agents r)(analyst \<mapsto> a1, developer \<mapsto> a2, tester \<mapsto> a3)\<rparr>)"
  using assms by (auto simp: createAgents_def createAgent_def bind_Inr Let_def)

lemma queueTask_found:
  "agents r (agentId t) = Some a \<Longrightarrow>
   queueTask w r t =
     (case w_queueTask w t (agent_id a) of Some e \<Rightarrow> Inl e | None \<Rightarrow> Inr (t, agent_id a))"
  by (simp add: queueTask_def bind_def call_def split: option.split)

lemma agentId_tasks:
  "agentId (comprehend_task s) = analyst"
  "agentId (generate_task s) = developer"
  "agentId test_task = tester"
  "agentId validate_task = reviewer"
  "agentId frontend_task = frontend"
  by (simp_all add: task_defs)

subsection \<open>What the end-to-end check returns\<close>



lemma testSuccess_iff:
  "testSuccess rep c n checks \<longleftrightarrow>
     allTestsPassed rep c n \<and> artifactsCreated checks \<and>
     (\<forall>g\<in>set (qualityGateResults c). status g \<noteq> ''failed'' \<and> status g \<noteq> ''error'')"
  by (auto simp: testSuccess_def hasFailedGates_iff)






section \<open>The task lists of the three scenarios\<close>

text \<open>
  Claim C2.  Every task identifier of the \<open>basic\<close> list occurs in the \<open>fullstack\<close>
  list.  The \<open>enterprise\<close> list has the identifiers and the dependency lists of the
  \<open>fullstack\<close> list.  It is the \<open>fullstack\<close> list with five lines appended to the
  description of the comprehend task and three criteria appended to those of the
  generate task, so that both texts differ from the \<open>fullstack\<close> ones; the three other
  tasks are the same.
\<close>

theorem fullstack_extends_basic_and_enterprise_augments_text:
  "set (task_ids (queueTasks_specs ''basic'')) \<subseteq> set (task_ids (queueTasks_specs ''fullstack''))
   \<and> task_ids (queueTasks_specs ''basic'') =
       [''comprehend-todo-api'', ''generate-todo-api'', ''test-todo-api'']
   \<and> task_ids (queueTasks_specs ''fullstack'') =
       [''comprehend-todo-api'', ''generate-todo-api'', ''test-todo-api'',
        ''validate-todo-api'', ''generate-todo-frontend'']
   \<and> task_ids (queueTasks_specs ''enterprise'') = task_ids (queueTasks_specs ''fullstack'')
   \<and> map dependencies (queueTasks_specs ''fullstack'') =
       [None, Some [''comprehend-todo-api''], Some [''generate-todo-api''],
        Some [''generate-todo-api'', ''test-todo-api''], Some [''generate-todo-api'']]
   \<and> map dependencies (queueTasks_specs ''enterprise'') =
       map dependencies (queueTasks_specs ''fullstack'')
   \<and> queueTasks_specs ''fullstack'' =
       [comprehend_task ''fullstack'', generate_task ''fullstack'', test_task, validate_task,
        frontend_task]
   \<and> queueTasks_specs ''enterprise'' =
       [(comprehend_task ''fullstack'')
          \<lparr>task_description :=
             Some (getRequirementsDescription ''fullstack'' @
                   ''\<newline>            - JWT authentication'' @
                   ''\<newline>            - User association (tasks belong to users)'' @
                   ''\<newline>            - PostgreSQL database integration'' @
                   ''\<newline>            - Docker containerization'' @
                   ''\<newline>            - Rate limiting and security headers'')\<rparr>,
        (generate_task ''fullstack'')
          \<lparr>successCriteria :=
             Some (getApiSuccessCriteria ''fullstack'' @
                   [''PostgreSQL integration with migrations'',
                    ''JWT authentication middleware'',
                    ''User-scoped todo operations''])\<rparr>,
        test_task, validate_task, frontend_task]
   \<and> task_description (comprehend_task ''fullstack'') =
       Some (''Understand the requirements for a TODO API with the following features:'' @
             ''\<newline>            - CRUD operations (Create, Read, Update, Delete)'' @
             ''\<newline>            - Task model with: id, title, description, completed, createdAt, updatedAt'' @
             ''\<newline>            - RESTful endpoints following best practices'' @
             ''\<newline>            - Input validation'' @
             ''\<newline>            - Error handling'' @
             ''\<newline>            - JSON responses'')
   \<and> successCriteria (generate_task ''fullstack'') =
       Some [''Express.js REST API implementation'',
             ''All CRUD endpoints (GET, POST, PUT, DELETE)'',
             ''Proper error handling and validation'',
             ''Clean code structure with router separation'']
   \<and> task_description (comprehend_task ''enterprise'') \<noteq>
       task_description (comprehend_task ''fullstack'')
   \<and> successCriteria (generate_task ''enterprise'') \<noteq>
       successCriteria (generate_task ''fullstack'')"
  by (simp add: task_ids_def queueTasks_specs_def task_defs getRequirementsDescription_def
      getApiSuccessCriteria_def requirements_base_def requirements_enterprise_def
      api_criteria_base_def)

text \<open>
  Claim C3.  For the \<open>basic\<close> scenario the runner asks the orchestrator for three agents,
  from the templates of the analyst, the developer and the tester, and then asks it to
  queue exactly three tasks, in this order: comprehend for the analyst's identifier,
  generate for the developer's, test for the tester's.  It stops at the first task the
  orchestrator refuses; when all three are accepted, these three are what was queued.
  The three tasks bear the identifiers \<open>comprehend-todo-api\<close>, \<open>generate-todo-api\<close> and
  \<open>test-todo-api\<close>, each with an agent key of its own.
\<close>

theorem basic_queues_three_tasks_for_three_roles:
  assumes "scenario r = ''basic''"
  shows "(createAgents w r = Inr r' \<longleftrightarrow>
           (\<exists>a1 a2 a3.
              w_createAgent w \<lparr>req_name = ''Alice-Analyst'', req_template = REQUIREMENTS_ANALYST,
                                maxConcurrentTasks = 2\<rparr> = Inr a1 \<and>
              w_createAgent w \<lparr>req_name = ''Bob-Developer'', req_template = SENIOR_DEVELOPER,
                                maxConcurrentTasks = 2\<rparr> = Inr a2 \<and>
              w_createAgent w \<lparr>req_name = ''Carol-QA'', req_template = QA_ENGINEER,
                                maxConcurrentTasks = 2\<rparr> = Inr a3 \<and>
              r' = r\<lparr>agents := (agents r)(analyst \<mapsto> a1, developer \<mapsto> a2, tester \<mapsto> a3)\<rparr>)) \<and>
         queueTasks w (r\<lparr>agents := (agents r)(analyst \<mapsto> a1, developer \<mapsto> a2, tester \<mapsto> a3)\<rparr>) =
           (case w_queueTask w (comprehend_task ''basic'') (agent_id a1) of
              Some e \<Rightarrow> Inl e
            | None \<Rightarrow>
               (case w_queueTask w (generate_task ''basic'') (agent_id a2) of
                  Some e \<Rightarrow> Inl e
                | None \<Rightarrow>
                   (case w_queueTask w test_task (agent_id a3) of
                      Some e \<Rightarrow> Inl e
                    | None \<Rightarrow>
                        Inr [(comprehend_task ''basic'', agent_id a1),
                             (generate_task ''basic'', agent_id a2),
                             (test_task, agent_id a3)]))) \<and>
         map (\<lambda>t. (id' t, agentId t)) [comprehend_task ''basic'', generate_task ''basic'', test_task] =
           [(''comprehend-todo-api'', analyst), (''generate-todo-api'', developer),
            (''test-todo-api'', tester)]"
proof -
  let ?r = "r\<lparr>agents := (agents r)(analyst \<mapsto> a1, developer \<mapsto> a2, tester \<mapsto> a3)\<rparr>"
  have q: "queueTask w ?r (comprehend_task ''basic'') =
      (case w_queueTask w (comprehend_task ''basic'') (agent_id a1) of
         Some e \<Rightarrow> Inl e | None \<Rightarrow> Inr (comprehend_task ''basic'', agent_id a1))"
    "queueTask w ?r (generate_task ''basic'') =
      (case w_queueTask w (generate_task ''basic'') (agent_id a2) of
         Some e \<Rightarrow> Inl e | None \<Rightarrow> Inr (generate_task ''basic'', agent_id a2))"
    "queueTask w ?r test_task =
      (case w_queueTask w test_task (agent_id a3) of
         Some e \<Rightarrow> Inl e | None \<Rightarrow> Inr (test_task, agent_id a3))"
    by (rule queueTask_found, simp add: agentId_tasks)+
  have "queueTasks w ?r =
      queue_all w ?r [comprehend_task ''basic'', generate_task ''basic'', test_task]"
    using assms by (simp add: queueTasks_def queueTasks_specs_def)
  then have 2: "queueTasks w ?r =
           (case w_queueTask w (comprehend_task ''basic'') (agent_id a1) of
              Some e \<Rightarrow> Inl e
            | None \<Rightarrow>
               (case w_queueTask w (generate_task ''basic'') (agent_id a2) of
                  Some e \<Rightarrow> Inl e
                | None \<Rightarrow>
                   (case w_queueTask w test_task (agent_id a3) of
                      Some e \<Rightarrow> Inl e
                    | None \<Rightarrow>
                        Inr [(comprehend_task ''basic'', agent_id a1),
                             (generate_task ''basic'', agent_id a2),
                             (test_task, agent_id a3)])))"
    by (simp add: q bind_def split: option.split)
  have 3: "map (\<lambda>t. (id' t, agentId t)) [comprehend_task ''basic'', generate_task ''basic'', test_task] =
           [(''comprehend-todo-api'', analyst), (''generate-todo-api'', developer),
            (''test-todo-api'', tester)]"
    by (simp add: task_defs)
  show ?thesis
    by (rule conjI [OF createAgents_basic_iff [OF assms] conjI [OF 2 3]])
qed

theorem basic_queues_three_tasks_witness:
  "scenario (constructor (scenario_options ''basic'')) = ''basic'' \<and>
   createAgents mock_world (constructor (scenario_options ''basic'')) =
     Inr ((constructor (scenario_options ''basic''))\<lparr>agents := core_agents\<rparr>) \<and>
   queueTasks mock_world ((constructor (scenario_options ''basic''))\<lparr>agents := core_agents\<rparr>) =
     Inr [(comprehend_task ''basic'', ''Alice-Analyst''),
          (generate_task ''basic'', ''Bob-Developer''),
          (test_task, ''Carol-QA'')] \<and>
   queueTasks refusing_world ((constructor (scenario_options ''basic''))\<lparr>agents := core_agents\<rparr>) =
     Inl (Error ''refused'')"
proof -
  have h: "scenario (constructor (scenario_options ''basic'')) = ''basic''"
    by (simp add: constructor_def scenario_options_def or_basic_def)
  have e: "agents (constructor (scenario_options ''basic'')) = Map.empty"
    by (simp add: constructor_def)
  note a = basic_queues_three_tasks_for_three_roles [OF h, where w = mock_world
      and r' = "(constructor (scenario_options ''basic''))\<lparr>agents := core_agents\<rparr>"
      and ?a1.0 = "agent_named ''Alice-Analyst''" and ?a2.0 = "agent_named ''Bob-Developer''"
      and ?a3.0 = "agent_named ''Carol-QA''"]
  note b = basic_queues_three_tasks_for_three_roles [OF h, where w = refusing_world
      and ?a1.0 = "agent_named ''Alice-Analyst''" and ?a2.0 = "agent_named ''Bob-Developer''"
      and ?a3.0 = "agent_named ''Carol-QA''"]
  from a b h show ?thesis
    by (simp add: e core_agents_def mock_world_def refusing_world_def agent_named_def)
qed

text \<open>
  Claim C4.  For the \<open>enterprise\<close> scenario, with the five agents in place, the runner
  asks the orchestrator to queue exactly five tasks, in this order: comprehend,
  generate, test, validate, frontend, each for the identifier of its agent.  It stops
  at the first task the orchestrator refuses; when all five are accepted, these five
  are what was queued.  The validate task depends on exactly the generate and the test
  task, and the frontend task on exactly the generate task.
\<close>

theorem enterprise_queues_five_tasks:
  assumes "scenario r = ''enterprise''"
    and "agents r analyst = Some a1"
    and "agents r developer = Some a2"
    and "agents r tester = Some a3"
    and "agents r reviewer = Some a4"
    and "agents r frontend = Some a5"
  shows "queueTasks w r =
           (case w_queueTask w (comprehend_task ''enterprise'') (agent_id a1) of
              Some e \<Rightarrow> Inl e
            | None \<Rightarrow>
           (case w_queueTask w (generate_task ''enterprise'') (agent_id a2) of
              Some e \<Rightarrow> Inl e
            | None \<Rightarrow>
           (case w_queueTask w test_task (agent_id a3) of
              Some e \<Rightarrow> Inl e
            | None \<Rightarrow>
           (case w_queueTask w validate_task (agent_id a4) of
              Some e \<Rightarrow> Inl e
            | None \<Rightarrow>
           (case w_queueTask w frontend_task (agent_id a5) of
              Some e \<Rightarrow> Inl e
            | None \<Rightarrow>
                Inr [(comprehend_task ''enterprise'', agent_id a1),
                     (generate_task ''enterprise'', agent_id a2),
                     (test_task, agent_id a3),
                     (validate_task, agent_id a4),
                     (frontend_task, agent_id a5)]))))) \<and>
         map (\<lambda>t. (id' t, dependencies t))
           [comprehend_task ''enterprise'', generate_task ''enterprise'', test_task,
            validate_task, frontend_task] =
           [(''comprehend-todo-api'', None),
            (''generate-todo-api'', Some [''comprehend-todo-api'']),
            (''test-todo-api'', Some [''generate-todo-api'']),
            (''validate-todo-api'', Some [''generate-todo-api'', ''test-todo-api'']),
            (''generate-todo-frontend'', Some [''generate-todo-api''])]"
proof -
  have q: "queueTask w r (comprehend_task ''enterprise'') =
      (case w_queueTask w (comprehend_task ''enterprise'') (agent_id a1) of
         Some e \<Rightarrow> Inl e | None \<Rightarrow> Inr (comprehend_task ''enterprise'', agent_id a1))"
    "queueTask w r (generate_task ''enterprise'') =
      (case w_queueTask w (generate_task ''enterprise'') (agent_id a2) of
         Some e \<Rightarrow> Inl e | None \<Rightarrow> Inr (generate_task ''enterprise'', agent_id a2))"
    "queueTask w r test_task =
      (case w_queueTask w test_task (agent_id a3) of
         Some e \<Rightarrow> Inl e | None \<Rightarrow> Inr (test_task, agent_id a3))"
    "queueTask w r validate_task =
      (case w_queueTask w validate_task (agent_id a4) of
         Some e \<Rightarrow> Inl e | None \<Rightarrow> Inr (validate_task, agent_id a4))"
    "queueTask w r frontend_task =
      (case w_queueTask w frontend_task (agent_id a5) of
         Some e \<Rightarrow> Inl e | None \<Rightarrow> Inr (frontend_task, agent_id a5))"
    using assms(2-6) by - (rule queueTask_found, simp add: agentId_tasks)+
  have "queueTasks w r =
      queue_all w r [comprehend_task ''enterprise'', generate_task ''enterprise'', test_task,
        validate_task, frontend_task]"
    using assms(1) by (simp add: queueTasks_def queueTasks_specs_def)
  then have 1: "queueTasks w r =
           (case w_queueTask w (comprehend_task ''enterprise'') (agent_id a1) of
              Some e \<Rightarrow> Inl e
            | None \<Rightarrow>
           (case w_queueTask w (generate_task ''enterprise'') (agent_id a2) of
              Some e \<Rightarrow> Inl e
            | None \<Rightarrow>
           (case w_queueTask w test_task (agent_id a3) of
              Some e \<Rightarrow> Inl e
            | None \<Rightarrow>
           (case w_queueTask w validate_task (agent_id a4) of
              Some e \<Rightarrow> Inl e
            | None \<Rightarrow>
           (case w_queueTask w frontend_task (agent_id a5) of
              Some e \<Rightarrow> Inl e
            | None \<Rightarrow>
                Inr [(comprehend_task ''enterprise'', agent_id a1),
                     (generate_task ''enterprise'', agent_id a2),
                     (test_task, agent_id a3),
                     (validate_task, agent_id a4),
                     (frontend_task, agent_id a5)])))))"
    by (simp add: q bind_def split: option.split)
  have 2: "map (\<lambda>t. (id' t, dependencies t))
           [comprehend_task ''enterprise'', generate_task ''enterprise'', test_task,
            validate_task, frontend_task] =
           [(''comprehend-todo-api'', None),
            (''generate-todo-api'', Some [''comprehend-todo-api'']),
            (''test-todo-api'', Some [''generate-todo-api'']),
            (''validate-todo-api'', Some [''generate-todo-api'', ''test-todo-api'']),
            (''generate-todo-frontend'', Some [''generate-todo-api''])]"
    by (simp add: task_defs)
  show ?thesis
    by (rule conjI [OF 1 2])
qed

theorem enterprise_queues_five_tasks_witness:
  "scenario ((constructor (scenario_options ''enterprise''))\<lparr>agents := all_agents\<rparr>) =
     ''enterprise'' \<and>
   all_agents analyst = Some (agent_named ''Alice-Analyst'') \<and>
   all_agents developer = Some (agent_named ''Bob-Developer'') \<and>
   all_agents tester = Some (agent_named ''Carol-QA'') \<and>
   all_agents reviewer = Some (agent_named ''David-Reviewer'') \<and>
   all_agents frontend = Some (agent_named ''Eve-Frontend'') \<and>
   queueTasks mock_world ((constructor (scenario_options ''enterprise''))\<lparr>agents := all_agents\<rparr>) =
     Inr [(comprehend_task ''enterprise'', ''Alice-Analyst''),
          (generate_task ''enterprise'', ''Bob-Developer''),
          (test_task, ''Carol-QA''),
          (validate_task, ''David-Reviewer''),
          (frontend_task, ''Eve-Frontend'')] \<and>
   queueTasks refusing_world ((constructor (scenario_options ''enterprise''))\<lparr>agents := all_agents\<rparr>) =
     Inl (Error ''refused'')"
proof -
  let ?r = "(constructor (scenario_options ''enterprise''))\<lparr>agents := all_agents\<rparr>"
  have h: "scenario ?r = ''enterprise''"
    by (simp add: constructor_def scenario_options_def or_basic_def)
  have g: "agents ?r analyst = Some (agent_named ''Alice-Analyst'')"
    "agents ?r developer = Some (agent_named ''Bob-Developer'')"
    "agents ?r tester = Some (agent_named ''Carol-QA'')"
    "agents ?r reviewer = Some (agent_named ''David-Reviewer'')"
    "agents ?r frontend = Some (agent_named ''Eve-Frontend'')"
    by (simp_all add: all_agents_def core_agents_def)
  note a = enterprise_queues_five_tasks [OF h g, where w = mock_world]
  note b = enterprise_queues_five_tasks [OF h g, where w = refusing_world]
  from a b h g show ?thesis
    by (simp add: mock_world_def refusing_world_def agent_named_def)
qed

text \<open>
  Claim C5.  For each of the three supported scenarios the task list is not empty, its
  identifiers are pairwise distinct, every dependency of a task names a task that stands
  earlier in the list, and the dependency graph has no cycle.
\<close>

theorem supported_task_lists_are_well_formed:
  assumes "s \<in> {''basic'', ''fullstack'', ''enterprise''}"
  shows "queueTasks_specs s \<noteq> [] \<and>
         distinct (task_ids (queueTasks_specs s)) \<and>
         deps_defined_earlier [] (queueTasks_specs s) \<and>
         acyclic (dependency_edges (queueTasks_specs s))"
proof -
  have d: "distinct (task_ids (queueTasks_specs s))"
    by (simp add: task_ids_queueTasks_specs)
  have e: "deps_defined_earlier [] (queueTasks_specs s)"
    by (simp add: queueTasks_specs_def task_defs deps_of_def)
  from d e have "acyclic (dependency_edges (queueTasks_specs s))"
    by (simp add: earlier_deps_acyclic)
  with d e show ?thesis
    by (simp add: queueTasks_specs_def)
qed

theorem supported_task_lists_witness:
  "''enterprise'' \<in> {''basic'', ''fullstack'', ''enterprise''} \<and>
   queueTasks_specs ''enterprise'' \<noteq> [] \<and>
   distinct (task_ids (queueTasks_specs ''enterprise'')) \<and>
   deps_defined_earlier [] (queueTasks_specs ''enterprise'') \<and>
   acyclic (dependency_edges (queueTasks_specs ''enterprise''))"
proof -
  have h: "''enterprise'' \<in> {''basic'', ''fullstack'', ''enterprise''}" by simp
  from supported_task_lists_are_well_formed [OF h] h show ?thesis by blast
qed

text \<open>
  Claim C6.  The task list is a function of the scenario alone.  Two runs with the same
  scenario submit the same specifications (identifiers, dependencies, descriptions,
  criteria, token budgets and agent keys) whatever the mode, the budget, the verbosity
  and the answers of the orchestrator in each run; when both runners also hold the same
  agents, the agent identifiers sent are the same too.
\<close>

theorem task_list_depends_on_scenario_only:
  assumes "scenario r1 = scenario r2"
    and "queueTasks w1 r1 = Inr qs1"
    and "queueTasks w2 r2 = Inr qs2"
  shows "map fst qs1 = map fst qs2 \<and>
         map fst qs1 = queueTasks_specs (scenario r1) \<and>
         (agents r1 = agents r2 \<longrightarrow> qs1 = qs2)"
proof -
  from assms have m: "map fst qs1 = queueTasks_specs (scenario r1)"
    "map fst qs2 = queueTasks_specs (scenario r1)"
    by (simp_all add: queueTasks_def queue_all_specs)
  have "qs1 = qs2" if "agents r1 = agents r2"
  proof -
    have "\<And>qs qs'. queue_all w1 r1 ts = Inr qs \<Longrightarrow> queue_all w2 r2 ts = Inr qs' \<Longrightarrow> qs = qs'"
      for ts
      by (induction ts) (auto simp: bind_Inr queueTask_Inr that)
    with assms show ?thesis
      by (simp add: queueTasks_def)
  qed
  with m show ?thesis by simp
qed

theorem task_list_depends_on_scenario_only_witness:
  "scenario ((constructor (scenario_options ''basic''))\<lparr>agents := core_agents\<rparr>) =
   scenario ((constructor (scenario_options ''basic''))
              \<lparr>mockMode := False, budget := Finite 25, verbose := True, agents := core_agents\<rparr>) \<and>
   queueTasks mock_world ((constructor (scenario_options ''basic''))\<lparr>agents := core_agents\<rparr>) =
     Inr [(comprehend_task ''basic'', ''Alice-Analyst''),
          (generate_task ''basic'', ''Bob-Developer''),
          (test_task, ''Carol-QA'')] \<and>
   queueTasks (mock_world\<lparr>w_shutdown := Some (Error ''down'')\<rparr>)
     ((constructor (scenario_options ''basic''))
        \<lparr>mockMode := False, budget := Finite 25, verbose := True, agents := core_agents\<rparr>) =
     Inr [(comprehend_task ''basic'', ''Alice-Analyst''),
          (generate_task ''basic'', ''Bob-Developer''),
          (test_task, ''Carol-QA'')] \<and>
   map fst [(comprehend_task ''basic'', ''Alice-Analyst''),
            (generate_task ''basic'', ''Bob-Developer''),
            (test_task, ''Carol-QA'')] =
     queueTasks_specs ''basic'' \<and>
   agents ((constructor (scenario_options ''basic''))\<lparr>agents := core_agents\<rparr>) =
   agents ((constructor (scenario_options ''basic''))
            \<lparr>mockMode := False, budget := Finite 25, verbose := True, agents := core_agents\<rparr>)"
proof -
  have h1: "scenario ((constructor (scenario_options ''basic''))\<lparr>agents := core_agents\<rparr>) =
     scenario ((constructor (scenario_options ''basic''))
              \<lparr>mockMode := False, budget := Finite 25, verbose := True, agents := core_agents\<rparr>)"
    by simp
  have h3: "queueTasks (mock_world\<lparr>w_shutdown := Some (Error ''down'')\<rparr>)
     ((constructor (scenario_options ''basic''))
        \<lparr>mockMode := False, budget := Finite 25, verbose := True, agents := core_agents\<rparr>) =
     Inr [(comprehend_task ''basic'', ''Alice-Analyst''),
          (generate_task ''basic'', ''Bob-Developer''),
          (test_task, ''Carol-QA'')]"
    by (simp add: queueTasks_def queueTasks_specs_def queueTask_def mock_world_def
      constructor_def scenario_options_def or_basic_def bind_def call_def core_agents_def
      all_agents_def agent_named_def task_defs)
  have s: "scenario ((constructor (scenario_options ''basic''))\<lparr>agents := core_agents\<rparr>) = ''basic''"
    by (simp add: constructor_def scenario_options_def or_basic_def)
  from task_list_depends_on_scenario_only [OF h1 queueTasks_mock_basic h3]
    h1 queueTasks_mock_basic h3 s
  show ?thesis by simp
qed

section \<open>The constructor and the command line\<close>

text \<open>
  Claim C10.  An omitted option takes its default: scenario \<open>basic\<close>, mock mode on,
  budget 10, verbose off.  A budget of 0 is replaced by 10.  The options built from the
  environment always carry a mock mode, true exactly when \<open>MOCK_MODE\<close> is the string
  \<open>true\<close>: with \<open>MOCK_MODE\<close> unset the runner is in real mode, the opposite of the
  constructor's default.
\<close>

theorem constructor_defaults_and_cli_mock_mode:
  "scenario (constructor (opts\<lparr>opt_scenario := None\<rparr>)) = ''basic''
   \<and> mockMode (constructor (opts\<lparr>opt_mockMode := None\<rparr>)) = True
   \<and> budget (constructor (opts\<lparr>opt_budget := None\<rparr>)) = Finite 10
   \<and> verbose (constructor (opts\<lparr>opt_verbose := None\<rparr>)) = False
   \<and> budget (constructor (opts\<lparr>opt_budget := Some (Finite 0)\<rparr>)) = Finite 10
   \<and> mockMode (constructor (cli_options parseInt env av)) = (MOCK_MODE env = Some ''true'')
   \<and> mockMode (constructor (cli_options parseInt (env\<lparr>MOCK_MODE := None\<rparr>) av)) = False"
  by (simp add: constructor_def cli_options_def or_basic_def or_ten_def)

section \<open>Selecting a scenario\<close>

text \<open>
  Claim C1, as the code has it.  Take a scenario identifier outside the three supported
  ones that is not empty and does not name an inherited property.  A run that does not
  prompt fails on it before the \<open>try\<close> block: \<open>displayConfig\<close> raises a \<open>TypeError\<close>,
  which rejects the promise of \<open>run\<close>; nothing is created or queued.
  \<open>getScenarioConfig\<close> returns \<open>null\<close> for an identifier its table lacks.  The empty
  identifier is replaced by \<open>basic\<close>.
\<close>

theorem unknown_scenario_rejects_run_and_empty_defaults:
  assumes "s \<notin> {''basic'', ''fullstack'', ''enterprise''}"
    and "s \<noteq> ''''"
    and "s \<notin> set Object_prototype_properties"
    and "\<not> interactive (argv w)"
  shows "run w (constructor (opts\<lparr>opt_scenario := Some s\<rparr>)) =
           Rejected (TypeError ''config.name'') \<and>
         (scenarios s = None \<longrightarrow> getScenarioConfig scenarios s = None) \<and>
         scenario (constructor (opts\<lparr>opt_scenario := Some ''''\<rparr>)) = ''basic''"
proof -
  from assms(2) have "scenario (constructor (opts\<lparr>opt_scenario := Some s\<rparr>)) = s"
    by (simp add: constructor_def or_basic_def)
  moreover from assms(1,3) have "get_property SCENARIOS s = Undefined"
    by (simp add: get_property_def SCENARIOS_def)
  ultimately have "displayConfig (constructor (opts\<lparr>opt_scenario := Some s\<rparr>)) =
      Inl (TypeError ''config.name'')"
    by (simp add: displayConfig_def)
  with assms(4) have "run w (constructor (opts\<lparr>opt_scenario := Some s\<rparr>)) =
      Rejected (TypeError ''config.name'')"
    by (simp add: run_def)
  moreover from assms(3) have "scenarios s = None \<longrightarrow> getScenarioConfig scenarios s = None"
    by (simp add: getScenarioConfig_def get_property_def)
  moreover have "scenario (constructor (opts\<lparr>opt_scenario := Some ''''\<rparr>)) = ''basic''"
    by (simp add: constructor_def or_basic_def)
  ultimately show ?thesis by blast
qed

theorem unknown_scenario_witness:
  "''premium'' \<notin> {''basic'', ''fullstack'', ''enterprise''} \<and>
   ''premium'' \<noteq> '''' \<and>
   ''premium'' \<notin> set Object_prototype_properties \<and>
   \<not> interactive (argv mock_world) \<and>
   run mock_world (constructor (scenario_options ''premium'')) =
     Rejected (TypeError ''config.name'') \<and>
   getScenarioConfig SCENARIOS ''premium'' = None"
proof -
  have h1: "''premium'' \<notin> {''basic'', ''fullstack'', ''enterprise''}" by simp
  have h2: "''premium'' \<noteq> ''''" by simp
  have h3: "''premium'' \<notin> set Object_prototype_properties"
    by (simp add: Object_prototype_properties_def)
  have h4: "\<not> interactive (argv mock_world)"
    by (simp add: interactive_def mock_world_def)
  have o: "(scenario_options ''anything'')\<lparr>opt_scenario := Some ''premium''\<rparr> =
      scenario_options ''premium''"
    by (simp add: scenario_options_def)
  have n: "SCENARIOS ''premium'' = None"
    by (simp add: SCENARIOS_def)
  from unknown_scenario_rejects_run_and_empty_defaults
    [OF h1 h2 h3 h4, of "scenario_options ''anything''" SCENARIOS]
    h1 h2 h3 h4 n
  show ?thesis
    by (simp only: o) simp
qed

text \<open>
  The empty identifier is outside the supported set, and selecting it runs the \<open>basic\<close>
  scenario to a clean exit.
\<close>

theorem empty_scenario_runs_basic:
  "'''' \<notin> set [''basic'', ''fullstack'', ''enterprise''] \<and>
   scenario (constructor (scenario_options '''')) = ''basic'' \<and>
   run mock_world (constructor (scenario_options '''')) = Exit 0"
proof -
  have c: "constructor (scenario_options '''') = constructor (scenario_options ''basic'')"
    by (simp add: constructor_def scenario_options_def or_basic_def)
  have "mock_world = mock_world\<lparr>w_getFinalReport := Inr mock_report\<rparr>"
    by (simp add: mock_world_def)
  then have "run mock_world (constructor (scenario_options ''basic'')) = Exit 0"
    using run_mock_basic [of mock_report] by simp
  with c show ?thesis
    by (simp add: constructor_def scenario_options_def or_basic_def)
qed

section \<open>The exit status of the demo\<close>

text \<open>
  Claim C7, as the code has it.  For a run that reaches the \<open>try\<close> block, the process
  exits with status 0 exactly when every step of the block returns, and with status 1
  exactly when one of them raises.  The numbers of completed and failed tasks in the
  final report do not enter: replacing them leaves the outcome of the run unchanged.
  The runner's handler of the event for a failed task prints two lines to the error
  stream, and whatever events arrive, no handler of the runner raises or ends the
  process.
\<close>

theorem exit_status_follows_raised_errors_only:
  assumes "before_try w r0 = Inr r"
  shows "(run w r0 = Exit 0 \<longleftrightarrow> all_steps_return w r) \<and>
         (run w r0 = Exit 1 \<longleftrightarrow> \<not> all_steps_return w r) \<and>
         run (w\<lparr>w_getFinalReport :=
                  Inr (rep\<lparr>tasksCompleted := a, totalTasks := b, tasksFailed := c\<rparr>)\<rparr>) r0
           = run (w\<lparr>w_getFinalReport := Inr rep\<rparr>) r0 \<and>
         on_event r' TaskFailed = [PrintError, PrintError] \<and>
         list_all (\<lambda>e. e = Print \<or> e = PrintError) (concat (map (on_event r') evs))"
proof -
  have 1: "run w r0 = Exit 0 \<longleftrightarrow> all_steps_return w r"
    using assms try_block_0 [of w r]
    by (auto simp: run_Exit split: sum.splits)
  have 2: "run w r0 = Exit 1 \<longleftrightarrow> \<not> all_steps_return w r"
    using assms try_block_0 [of w r] try_block_values [of w r]
    by (auto simp: run_Exit split: sum.splits)
  have 3: "run (w\<lparr>w_getFinalReport :=
                    Inr (rep\<lparr>tasksCompleted := a, totalTasks := b, tasksFailed := c\<rparr>)\<rparr>) r0
           = run (w\<lparr>w_getFinalReport := Inr rep\<rparr>) r0"
    by (simp add: run_alt before_try_report report_irrelevant cong: sum.case_cong)
  have 4: "on_event r' TaskFailed = [PrintError, PrintError]"
    by simp
  have 5: "list_all (\<lambda>e. e = Print \<or> e = PrintError) (concat (map (on_event r') evs))"
  proof (induction evs)
    case Nil
    then show ?case by simp
  next
    case (Cons ev evs)
    then show ?case by (cases ev) simp_all
  qed
  show ?thesis
    by (rule conjI [OF 1 conjI [OF 2 conjI [OF 3 conjI [OF 4 5]]]])
qed

theorem exit_status_witness:
  "before_try failed_task_world (constructor (scenario_options ''basic'')) =
     Inr (constructor (scenario_options ''basic'')) \<and>
   run failed_task_world (constructor (scenario_options ''basic'')) = Exit 0 \<and>
   all_steps_return failed_task_world (constructor (scenario_options ''basic'')) \<and>
   on_event (constructor (scenario_options ''basic'')) TaskFailed = [PrintError, PrintError]"
proof -
  have h: "before_try failed_task_world (constructor (scenario_options ''basic'')) =
     Inr (constructor (scenario_options ''basic''))"
    by (simp add: failed_task_world_def before_try_mock)
  have e: "run failed_task_world (constructor (scenario_options ''basic'')) = Exit 0"
    by (simp add: failed_task_world_def run_mock_basic)
  from exit_status_follows_raised_errors_only
    [OF h, where r' = "constructor (scenario_options ''basic'')"] e h
  show ?thesis
    by blast
qed

text \<open>
  A run whose report counts two completed tasks out of three, one of them failed, exits
  with status 0.  A run with an unknown scenario fails before the \<open>try\<close> block: its
  promise is rejected, and the process ends with status 0 as well.
\<close>

theorem failed_task_run_exits_zero:
  "run failed_task_world (constructor (scenario_options ''basic'')) = Exit 0 \<and>
   w_getFinalReport failed_task_world =
     Inr \<lparr>tasksCompleted = 2, totalTasks = 3, tasksFailed = 1, totalCost = None,
          totalTokens = None, duration = 1200\<rparr> \<and>
   run mock_world (constructor (scenario_options ''premium'')) =
     Rejected (TypeError ''config.name'') \<and>
   process_status (run mock_world (constructor (scenario_options ''premium''))) = 0"
proof -
  have "displayConfig (constructor (scenario_options ''premium'')) = Inl (TypeError ''config.name'')"
    by (simp add: displayConfig_def get_property_def SCENARIOS_def
        Object_prototype_properties_def constructor_def scenario_options_def or_basic_def)
  moreover have "\<not> interactive (argv mock_world)"
    by (simp add: interactive_def mock_world_def)
  ultimately have "run mock_world (constructor (scenario_options ''premium'')) =
      Rejected (TypeError ''config.name'')"
    by (simp add: run_def)
  moreover have "run failed_task_world (constructor (scenario_options ''basic'')) = Exit 0"
    by (simp add: failed_task_world_def run_mock_basic)
  moreover have "w_getFinalReport failed_task_world =
     Inr \<lparr>tasksCompleted = 2, totalTasks = 3, tasksFailed = 1, totalCost = None,
          totalTokens = None, duration = 1200\<rparr>"
    by (simp add: failed_task_world_def mock_report_def)
  ultimately show ?thesis by simp
qed

section \<open>The end-to-end check: timer and verdict\<close>

text \<open>
  Claim C8.  Once execution has started, the timer and the completion race.  When the
  timer fires first, its error is raised uncaught, which is fatal for the run: the
  process ends with status 1.  When completion comes first, the timer is cleared and
  the result is the verdict of the verification alone.
\<close>

theorem timer_first_is_fatal_completion_first_verifies:
  assumes "e2e_start w = Inr tasks"
  shows "(e_wait w = TimerFirst \<longrightarrow>
            runE2ETest w = Uncaught (Error ''Execution timeout after 30 seconds'') \<and>
            exit_status (runE2ETest w) = 1) \<and>
         (e_wait w = Completion \<longrightarrow>
            runE2ETest w = Returned (e2e_verify w tasks = Inr True))"
  using assms by (auto simp: runE2ETest_def split: sum.splits)

theorem timer_race_witness:
  "e2e_start (e2e_mock_world\<lparr>e_wait := TimerFirst\<rparr>) =
     Inr [e2e_comprehend, e2e_generate, e2e_test] \<and>
   e_wait (e2e_mock_world\<lparr>e_wait := TimerFirst\<rparr>) = TimerFirst \<and>
   runE2ETest (e2e_mock_world\<lparr>e_wait := TimerFirst\<rparr>) =
     Uncaught (Error ''Execution timeout after 30 seconds'') \<and>
   exit_status (runE2ETest (e2e_mock_world\<lparr>e_wait := TimerFirst\<rparr>)) = 1 \<and>
   e2e_start e2e_mock_world = Inr [e2e_comprehend, e2e_generate, e2e_test] \<and>
   e_wait e2e_mock_world = Completion \<and>
   runE2ETest e2e_mock_world = Returned True"
proof -
  have h: "e2e_start (e2e_mock_world\<lparr>e_wait := TimerFirst\<rparr>) =
      Inr [e2e_comprehend, e2e_generate, e2e_test]"
    by (simp add: e2e_start_wait e2e_start_mock)
  have t: "e_wait (e2e_mock_world\<lparr>e_wait := TimerFirst\<rparr>) = TimerFirst"
    by simp
  have c: "e_wait e2e_mock_world = Completion"
    by (simp add: e2e_mock_world_def)
  from timer_first_is_fatal_completion_first_verifies [OF h]
    timer_first_is_fatal_completion_first_verifies [OF e2e_start_mock]
    h t c e2e_start_mock e2e_verify_mock
  show ?thesis by simp
qed



text \<open>
  A status the code does not look up is counted under its own name and does not fail
  the check: here one gate reports \<open>fail\<close>.
\<close>

lemma unlisted_status_does_not_fail_the_check:
  "runE2ETest e2e_mock_world = Returned True \<and>
   map status (qualityGateResults (handle_all (e_events e2e_mock_world))) =
     [''fail'', ''pass'', ''skipped'']"
proof -
  have "e_wait e2e_mock_world = Completion"
    by (simp add: e2e_mock_world_def)
  then have "runE2ETest e2e_mock_world = Returned True"
    by (simp add: runE2ETest_def e2e_start_mock e2e_verify_mock)
  then show ?thesis
    by (simp add: handle_all_mock)
qed

end
